theory Spec2Isabelle
  imports Complex_Main
begin

section \<open>Exceptions and Python integer arithmetic\<close>

text \<open>
  The program is \<^verbatim>\<open>train_gpt2.py\<close>: a configuration dataclass and four
  \<^verbatim>\<open>nn.Module\<close> classes. Every exception the program can raise is a value of
  \<open>py_error\<close>; a computation that may raise returns \<open>py_error + 'a\<close>, with
  \<open>Inl\<close> for the exception. \<open>AssertionError\<close> is the failed \<^verbatim>\<open>assert\<close> of line 10,
  \<open>UnboundLocalError\<close> the read of a local variable that has no value yet,
  \<open>NotImplementedError\<close> what the base class \<^verbatim>\<open>nn.Module\<close> raises for a module
  that defines no \<^verbatim>\<open>forward\<close>, \<open>RuntimeError\<close> what the tensor library raises for
  a negative size or for shapes that do not fit, \<open>ValueError\<close> a tuple unpacking of
  the wrong length, \<open>IndexError\<close> a dimension out of range.
\<close>

datatype py_error =
    AssertionError
  | ZeroDivisionError
  | UnboundLocalError
  | NotImplementedError
  | RuntimeError
  | ValueError
  | IndexError

definition and_then :: "py_error + 'a \<Rightarrow> ('a \<Rightarrow> py_error + 'b) \<Rightarrow> py_error + 'b" where
  "and_then r f = (case r of Inl e \<Rightarrow> Inl e | Inr v \<Rightarrow> f v)"

text \<open>Python's \<^verbatim>\<open>%\<close> and \<^verbatim>\<open>//\<close> on integers: floored, as \<open>mod\<close> and \<open>div\<close> on
  \<open>int\<close> are, and raising on a zero divisor.\<close>

definition py_mod :: "int \<Rightarrow> int \<Rightarrow> py_error + int" where
  "py_mod a b = (if b = 0 then Inl ZeroDivisionError else Inr (a mod b))"

definition py_floordiv :: "int \<Rightarrow> int \<Rightarrow> py_error + int" where
  "py_floordiv a b = (if b = 0 then Inl ZeroDivisionError else Inr (a div b))"

section \<open>The configuration record (lines 69--75)\<close>

record GPTConfig =
  block_size :: int
  vocab_size :: int
  n_layer :: int
  n_head :: int
  n_embd :: int

definition GPTConfig_default :: GPTConfig where
  "GPTConfig_default =
     \<lparr>block_size = 256, vocab_size = 65, n_layer = 6, n_head = 6, n_embd = 384\<rparr>"

section \<open>Tensors and parameters\<close>

text \<open>
  A tensor is its shape and its elements, read by a multi-index. Elements are real
  numbers: rounding is not modelled. Memory layout (strides) is not modelled either;
  \<open>view\<close> below is the reading of the same elements in row-major order under another
  shape, which is what \<^verbatim>\<open>Tensor.view\<close> returns whenever it returns.
\<close>

record 'a tensor =
  tshape :: "nat list"
  elems :: "nat list \<Rightarrow> 'a"

definition numel :: "'a tensor \<Rightarrow> nat" where
  "numel t = prod_list (tshape t)"

text \<open>
  A learned parameter is a tensor of the module that owns it. Its identity is the address
  it was allocated at and its values live in a store, so that two modules share a
  parameter exactly when they hold the same address. The values a parameter has (the
  library's random initialisation, later the training procedure's updates) are outside
  the program: every forward operation below takes the store as an argument.
\<close>

record Parameter =
  addr :: nat
  pshape :: "nat list"

type_synonym store = "nat \<Rightarrow> nat list \<Rightarrow> real"

definition param_value :: "store \<Rightarrow> Parameter \<Rightarrow> real tensor" where
  "param_value \<theta> p = \<lparr>tshape = pshape p, elems = \<theta> (addr p)\<rparr>"

text \<open>\<^verbatim>\<open>torch.empty(sizes)\<close> wrapped in \<^verbatim>\<open>nn.Parameter\<close>: a fresh tensor, refused
  with a \<^verbatim>\<open>RuntimeError\<close> when a size is negative. The second argument and result is the
  next free address.\<close>

definition new_parameter :: "int list \<Rightarrow> nat \<Rightarrow> py_error + (Parameter \<times> nat)" where
  "new_parameter sizes a =
     (if list_ex (\<lambda>d. d < 0) sizes then Inl RuntimeError
      else Inr (\<lparr>addr = a, pshape = map nat sizes\<rparr>, Suc a))"

subsection \<open>Shapes and views\<close>

text \<open>Row-major offset of a multi-index, and the multi-index of an offset.\<close>

fun ravel :: "nat list \<Rightarrow> nat list \<Rightarrow> nat" where
  "ravel (d # ds) (i # js) = i * prod_list ds + ravel ds js"
| "ravel _ _ = 0"

fun unravel :: "nat list \<Rightarrow> nat \<Rightarrow> nat list" where
  "unravel [] k = []"
| "unravel (d # ds) k = (k div prod_list ds) # unravel ds (k mod prod_list ds)"

text \<open>The shape \<^verbatim>\<open>Tensor.view(*sizes)\<close> gives a tensor of \<open>n\<close> elements: one size may
  be \<open>-1\<close> and is then inferred; any other negative size, a second \<open>-1\<close>, or a product
  different from \<open>n\<close> is a \<^verbatim>\<open>RuntimeError\<close>.\<close>

definition view_shape :: "nat \<Rightarrow> int list \<Rightarrow> py_error + nat list" where
  "view_shape n sizes =
     (if list_ex (\<lambda>d. d < - 1) sizes \<or> 1 < count_list sizes (- 1) then Inl RuntimeError
      else if - 1 \<in> set sizes then
        (let p = prod_list (map nat (filter (\<lambda>d. d \<noteq> - 1) sizes)) in
         if p = 0 \<or> n mod p \<noteq> 0 then Inl RuntimeError
         else Inr (map (\<lambda>d. if d = - 1 then n div p else nat d) sizes))
      else if prod_list (map nat sizes) = n then Inr (map nat sizes)
      else Inl RuntimeError)"

definition view :: "'a tensor \<Rightarrow> int list \<Rightarrow> py_error + 'a tensor" where
  "view t sizes =
     (case view_shape (numel t) sizes of
        Inl e \<Rightarrow> Inl e
      | Inr s \<Rightarrow> Inr \<lparr>tshape = s, elems = (\<lambda>idx. elems t (unravel (tshape t) (ravel s idx)))\<rparr>)"

text \<open>\<^verbatim>\<open>torch.ones(sizes)\<close> and \<^verbatim>\<open>torch.tril\<close> (the lower triangle of the last two
  dimensions; the input needs at least two).\<close>

definition torch_ones :: "int list \<Rightarrow> py_error + real tensor" where
  "torch_ones sizes =
     (if list_ex (\<lambda>d. d < 0) sizes then Inl RuntimeError
      else Inr \<lparr>tshape = map nat sizes, elems = (\<lambda>idx. 1)\<rparr>)"

definition torch_tril :: "real tensor \<Rightarrow> py_error + real tensor" where
  "torch_tril t =
     (if length (tshape t) < 2 then Inl RuntimeError
      else Inr \<lparr>tshape = tshape t,
               elems = (\<lambda>idx. if last idx \<le> last (butlast idx) then elems t idx else 0)\<rparr>)"

section \<open>Library modules: \<^verbatim>\<open>nn.Linear\<close>\<close>

record Linear =
  in_features :: int
  out_features :: int
  weight :: Parameter
  bias :: "Parameter option"

text \<open>\<^verbatim>\<open>nn.Linear(in_features, out_features, bias)\<close>: the weight has shape
  \<open>(out_features, in_features)\<close>, the bias \<open>(out_features)\<close>.\<close>

definition Linear_init :: "int \<Rightarrow> int \<Rightarrow> bool \<Rightarrow> nat \<Rightarrow> py_error + (Linear \<times> nat)" where
  "Linear_init n_in n_out use_bias a =
     (case new_parameter [n_out, n_in] a of
        Inl e \<Rightarrow> Inl e
      | Inr (w, a1) \<Rightarrow>
          if use_bias then
            (case new_parameter [n_out] a1 of
               Inl e \<Rightarrow> Inl e
             | Inr (b, a2) \<Rightarrow>
                 Inr (\<lparr>in_features = n_in, out_features = n_out, weight = w, bias = Some b\<rparr>, a2))
          else Inr (\<lparr>in_features = n_in, out_features = n_out, weight = w, bias = None\<rparr>, a1))"

section \<open>\<^verbatim>\<open>CausalSelfAttention.__init__\<close> (lines 8--20)\<close>

text \<open>The fields \<^verbatim>\<open>self.n_head\<close>, \<^verbatim>\<open>self.n_embd\<close> and the buffer \<^verbatim>\<open>bias\<close> are
  \<open>attn_n_head\<close>, \<open>attn_n_embd\<close> and \<open>attn_bias\<close> here: a record field's name is a
  constant, and the configuration and \<open>Linear\<close> already own the plain names.\<close>

record CausalSelfAttention =
  c_attn :: Linear
  c_proj :: Linear
  attn_n_head :: int
  attn_n_embd :: int
  attn_bias :: "real tensor"

text \<open>Lines 19--20: \<^verbatim>\<open>torch.tril(torch.ones(block_size, block_size)).view(1, 1,
  block_size, block_size)\<close>.\<close>

definition causal_mask_buffer :: "int \<Rightarrow> py_error + real tensor" where
  "causal_mask_buffer bs =
     and_then (torch_ones [bs, bs]) (\<lambda>ones.
     and_then (torch_tril ones) (\<lambda>tril.
     view tril [1, 1, bs, bs]))"

definition CausalSelfAttention_init ::
  "GPTConfig \<Rightarrow> nat \<Rightarrow> py_error + (CausalSelfAttention \<times> nat)" where
  "CausalSelfAttention_init config a =
     (case py_mod (n_embd config) (n_head config) of
        Inl e \<Rightarrow> Inl e
      | Inr r \<Rightarrow>
          if r \<noteq> 0 then Inl AssertionError
          else
            (case Linear_init (n_embd config) (3 * n_embd config) True a of
               Inl e \<Rightarrow> Inl e
             | Inr (ca, a1) \<Rightarrow>
                 (case Linear_init (n_embd config) (n_embd config) True a1 of
                    Inl e \<Rightarrow> Inl e
                  | Inr (cp, a2) \<Rightarrow>
                      (case causal_mask_buffer (block_size config) of
                         Inl e \<Rightarrow> Inl e
                       | Inr b \<Rightarrow>
                           Inr (\<lparr>c_attn = ca, c_proj = cp, attn_n_head = n_head config,
                                 attn_n_embd = n_embd config, attn_bias = b\<rparr>, a2)))))"

section \<open>Tensor operations of the library used by the forward operations\<close>

text \<open>A dimension argument may be negative and then counts from the end; out of range
  it is an \<^verbatim>\<open>IndexError\<close>.\<close>

definition norm_dim :: "nat \<Rightarrow> int \<Rightarrow> py_error + nat" where
  "norm_dim r d =
     (if - int r \<le> d \<and> d < int r then Inr (nat (if d < 0 then d + int r else d))
      else Inl IndexError)"

definition swap_at :: "nat \<Rightarrow> nat \<Rightarrow> 'b list \<Rightarrow> 'b list" where
  "swap_at i j xs = xs[i := xs ! j, j := xs ! i]"

text \<open>\<^verbatim>\<open>Tensor.transpose(dim0, dim1)\<close>.\<close>

definition tensor_transpose :: "'a tensor \<Rightarrow> int \<Rightarrow> int \<Rightarrow> py_error + 'a tensor" where
  "tensor_transpose t d0 d1 =
     and_then (norm_dim (length (tshape t)) d0) (\<lambda>i.
     and_then (norm_dim (length (tshape t)) d1) (\<lambda>j.
     Inr \<lparr>tshape = swap_at i j (tshape t), elems = (\<lambda>idx. elems t (swap_at i j idx))\<rparr>))"

text \<open>\<^verbatim>\<open>Tensor.split(split_size, dim)\<close>: consecutive chunks of \<open>split_size\<close> along
  the dimension \<open>axis\<close>, the last one shorter when the size is not a multiple; one empty chunk when the
  dimension is empty.\<close>

definition narrow :: "'a tensor \<Rightarrow> nat \<Rightarrow> nat \<Rightarrow> nat \<Rightarrow> 'a tensor" where
  "narrow t d start len =
     \<lparr>tshape = (tshape t)[d := len], elems = (\<lambda>idx. elems t (idx[d := idx ! d + start]))\<rparr>"

definition tensor_split :: "'a tensor \<Rightarrow> int \<Rightarrow> int \<Rightarrow> py_error + 'a tensor list" where
  "tensor_split t split_size axis =
     and_then (norm_dim (length (tshape t)) axis) (\<lambda>d.
       let n = tshape t ! d in
       if split_size < 0 then Inl RuntimeError
       else if split_size = 0 then (if n = 0 then Inr [narrow t d 0 0] else Inl RuntimeError)
       else
         let s = nat split_size; k = max ((n + s - 1) div s) 1 in
         Inr (map (\<lambda>i. narrow t d (i * s) (min s (n - i * s))) [0..<k]))"

text \<open>Unpacking a sequence into three names (\<^verbatim>\<open>a, b, c = xs\<close>), as at lines 23 and
  28.\<close>

definition unpack3 :: "'b list \<Rightarrow> py_error + ('b \<times> 'b \<times> 'b)" where
  "unpack3 xs = (case xs of [a, b, c] \<Rightarrow> Inr (a, b, c) | _ \<Rightarrow> Inl ValueError)"

text \<open>Broadcasting of two shapes, aligned at the last dimension.\<close>

fun broadcast_rev :: "nat list \<Rightarrow> nat list \<Rightarrow> py_error + nat list" where
  "broadcast_rev [] ys = Inr ys"
| "broadcast_rev (x # xs) [] = Inr (x # xs)"
| "broadcast_rev (x # xs) (y # ys) =
     (case broadcast_rev xs ys of
        Inl e \<Rightarrow> Inl e
      | Inr r \<Rightarrow>
          if x = y \<or> y = 1 then Inr (x # r)
          else if x = 1 then Inr (y # r)
          else Inl RuntimeError)"

definition broadcast_shapes :: "nat list \<Rightarrow> nat list \<Rightarrow> py_error + nat list" where
  "broadcast_shapes s1 s2 = and_then (broadcast_rev (rev s1) (rev s2)) (\<lambda>r. Inr (rev r))"

definition bcast_index :: "nat list \<Rightarrow> nat list \<Rightarrow> nat list" where
  "bcast_index s idx =
     map2 (\<lambda>d i. if d = 1 then 0 else i) s (drop (length idx - length s) idx)"

definition pointwise2 ::
  "('a \<Rightarrow> 'b \<Rightarrow> 'c) \<Rightarrow> 'a tensor \<Rightarrow> 'b tensor \<Rightarrow> py_error + 'c tensor" where
  "pointwise2 f x y =
     and_then (broadcast_shapes (tshape x) (tshape y)) (\<lambda>s.
     Inr \<lparr>tshape = s,
          elems = (\<lambda>idx. f (elems x (bcast_index (tshape x) idx))
                            (elems y (bcast_index (tshape y) idx)))\<rparr>)"

definition tensor_add :: "real tensor \<Rightarrow> real tensor \<Rightarrow> py_error + real tensor" where
  "tensor_add x y = pointwise2 (\<lambda>a b. a + b) x y"

definition tensor_scale :: "real tensor \<Rightarrow> real \<Rightarrow> real tensor" where
  "tensor_scale t c = \<lparr>tshape = tshape t, elems = (\<lambda>idx. elems t idx * c)\<rparr>"

text \<open>The matrix product \<^verbatim>\<open>x @ y\<close> of two batches of matrices. Both operands of the
  products at lines 33 and 36 leave a four-dimensional \<open>view\<close>; the vector cases of
  \<^verbatim>\<open>torch.matmul\<close> (an operand of one dimension) are not modelled, and the function
  answers \<^verbatim>\<open>RuntimeError\<close> for every operand of fewer than two dimensions.\<close>

definition matmul :: "real tensor \<Rightarrow> real tensor \<Rightarrow> py_error + real tensor" where
  "matmul x y =
     (let sx = tshape x; sy = tshape y in
      if length sx < 2 \<or> length sy < 2 then Inl RuntimeError
      else if last sx \<noteq> last (butlast sy) then Inl RuntimeError
      else
        and_then (broadcast_shapes (butlast (butlast sx)) (butlast (butlast sy))) (\<lambda>bs.
        Inr \<lparr>tshape = bs @ [last (butlast sx), last sy],
             elems = (\<lambda>idx.
               let b = butlast (butlast idx); i = last (butlast idx); j = last idx in
               (\<Sum>l\<leftarrow>[0..<last sx].
                  elems x (bcast_index (butlast (butlast sx)) b @ [i, l]) *
                  elems y (bcast_index (butlast (butlast sy)) b @ [l, j])))\<rparr>))"

text \<open>\<^verbatim>\<open>1.0 / math.sqrt(n)\<close> in Python floats: a zero divisor raises.\<close>

definition inv_sqrt_size :: "nat \<Rightarrow> py_error + real" where
  "inv_sqrt_size n = (if n = 0 then Inl ZeroDivisionError else Inr (1 / sqrt (real n)))"

text \<open>The index expression \<^verbatim>\<open>t[:, :, :T, :T]\<close> (a slice stops at the dimension's size)
  and the comparison \<^verbatim>\<open>t == 0\<close>.\<close>

definition slice_TT :: "'a tensor \<Rightarrow> nat \<Rightarrow> py_error + 'a tensor" where
  "slice_TT t T =
     (case tshape t of
        d0 # d1 # d2 # d3 # ds \<Rightarrow>
          Inr \<lparr>tshape = d0 # d1 # min T d2 # min T d3 # ds, elems = elems t\<rparr>
      | _ \<Rightarrow> Inl IndexError)"

definition eq_zero :: "real tensor \<Rightarrow> bool tensor" where
  "eq_zero t = \<lparr>tshape = tshape t, elems = (\<lambda>idx. elems t idx = 0)\<rparr>"

text \<open>A score is a real number or \<^verbatim>\<open>float('-inf')\<close>. \<^verbatim>\<open>Tensor.masked_fill(mask,
  value)\<close> broadcasts the mask against the tensor.\<close>

datatype score = NegInf | Fin real

definition masked_fill :: "real tensor \<Rightarrow> bool tensor \<Rightarrow> score \<Rightarrow> py_error + score tensor" where
  "masked_fill t msk v = pointwise2 (\<lambda>x b. if b then v else Fin x) t msk"

text \<open>\<^verbatim>\<open>F.softmax(t, dim=-1)\<close>, with \<open>exp (-inf) = 0\<close>. A row without a finite entry is
  NaN in the library and reads \<open>0\<close> here (the reals have no NaN); the causal mask leaves
  every row its diagonal entry.\<close>

definition exp_score :: "score \<Rightarrow> real" where
  "exp_score v = (case v of NegInf \<Rightarrow> 0 | Fin r \<Rightarrow> exp r)"

definition softmax_last :: "score tensor \<Rightarrow> real tensor" where
  "softmax_last t =
     \<lparr>tshape = tshape t,
      elems = (\<lambda>idx. exp_score (elems t idx) /
                 (\<Sum>j\<leftarrow>[0..<last (tshape t)]. exp_score (elems t (butlast idx @ [j]))))\<rparr>"

text \<open>\<^verbatim>\<open>F.linear(x, weight, bias)\<close>: on the last dimension of \<open>x\<close>, which must be the
  weight's second.\<close>

definition linear :: "real tensor \<Rightarrow> real tensor \<Rightarrow> real tensor option \<Rightarrow> py_error + real tensor" where
  "linear x w b =
     (case tshape w of
        [n_out, n_in] \<Rightarrow>
          if tshape x = [] \<or> last (tshape x) \<noteq> n_in then Inl RuntimeError
          else if (case b of None \<Rightarrow> False | Some bt \<Rightarrow> tshape bt \<noteq> [n_out])
          then Inl RuntimeError
          else
            Inr \<lparr>tshape = butlast (tshape x) @ [n_out],
                 elems = (\<lambda>idx.
                   (\<Sum>i\<leftarrow>[0..<n_in]. elems x (butlast idx @ [i]) * elems w [last idx, i]) +
                   (case b of None \<Rightarrow> 0 | Some bt \<Rightarrow> elems bt [last idx]))\<rparr>
      | _ \<Rightarrow> Inl RuntimeError)"

definition Linear_forward :: "store \<Rightarrow> Linear \<Rightarrow> real tensor \<Rightarrow> py_error + real tensor" where
  "Linear_forward \<theta> l x =
     linear x (param_value \<theta> (weight l)) (map_option (param_value \<theta>) (bias l))"

section \<open>\<^verbatim>\<open>CausalSelfAttention.forward\<close> (lines 22--40)\<close>

text \<open>Reading a local variable: one that no statement has assigned yet raises
  \<^verbatim>\<open>UnboundLocalError\<close>.\<close>

definition read_local :: "'b option \<Rightarrow> py_error + 'b" where
  "read_local var = (case var of None \<Rightarrow> Inl UnboundLocalError | Some v \<Rightarrow> Inr v)"

text \<open>Lines 33--35: the attention weights from the queries \<open>q\<close> and keys \<open>k\<close> of a
  sequence of length \<open>T\<close>.\<close>

definition attention_weights ::
  "CausalSelfAttention \<Rightarrow> nat \<Rightarrow> real tensor \<Rightarrow> real tensor \<Rightarrow> py_error + real tensor" where
  "attention_weights m T q k =
     and_then (tensor_transpose k (- 2) (- 1)) (\<lambda>kt.
     and_then (matmul q kt) (\<lambda>qk.
     and_then (inv_sqrt_size (last (tshape k))) (\<lambda>c.
     and_then (slice_TT (attn_bias m) T) (\<lambda>b.
     and_then (masked_fill (tensor_scale qk c) (eq_zero b) NegInf) (\<lambda>att.
     Inr (softmax_last att))))))"

text \<open>Lines 31--40, from the value \<open>v0\<close> that the read of \<^verbatim>\<open>v\<close> at line 31 gives.
  \<^verbatim>\<open>contiguous()\<close> changes the layout only, which the model does not have.\<close>

definition attention_tail ::
  "CausalSelfAttention \<Rightarrow> store \<Rightarrow> nat \<Rightarrow> nat \<Rightarrow> nat \<Rightarrow>
     real tensor \<Rightarrow> real tensor \<Rightarrow> real tensor \<Rightarrow> py_error + real tensor" where
  "attention_tail m \<theta> B T C q k v0 =
     and_then (py_floordiv (int C) (attn_n_head m)) (\<lambda>hs.
     and_then (view v0 [int B, int T, attn_n_head m, hs]) (\<lambda>v1.
     and_then (tensor_transpose v1 1 2) (\<lambda>v.
     and_then (attention_weights m T q k) (\<lambda>att.
     and_then (matmul att v) (\<lambda>y.
     and_then (tensor_transpose y 1 2) (\<lambda>yt.
     and_then (view yt [int B, int T, int C]) (\<lambda>y2.
     Linear_forward \<theta> (c_proj m) y2)))))))"

text \<open>The whole operation. Line 28 binds the three chunks to \<^verbatim>\<open>q\<close>, \<^verbatim>\<open>k\<close> and
  \<^verbatim>\<open>c\<close>; \<^verbatim>\<open>v\<close> is a local variable of the function (line 31 assigns it) that no
  statement before line 31 assigns, so its value there is \<open>None\<close>.\<close>

definition CausalSelfAttention_forward ::
  "CausalSelfAttention \<Rightarrow> store \<Rightarrow> real tensor \<Rightarrow> py_error + real tensor" where
  "CausalSelfAttention_forward m \<theta> x =
     and_then (unpack3 (tshape x)) (\<lambda>(B, T, C).
     and_then (Linear_forward \<theta> (c_attn m) x) (\<lambda>qkv.
     and_then (tensor_split qkv (attn_n_embd m) 2) (\<lambda>chunks.
     and_then (unpack3 chunks) (\<lambda>(q0, k0, c).
     and_then (py_floordiv (int C) (attn_n_head m)) (\<lambda>hs.
     and_then (view k0 [int B, int T, attn_n_head m, hs]) (\<lambda>k1.
     and_then (tensor_transpose k1 1 2) (\<lambda>k.
     and_then (py_floordiv (int C) (attn_n_head m)) (\<lambda>hs'.
     and_then (view q0 [int B, int T, attn_n_head m, hs']) (\<lambda>q1.
     and_then (tensor_transpose q1 1 2) (\<lambda>q.
     and_then (read_local (None :: real tensor option)) (\<lambda>v0.
     attention_tail m \<theta> B T C q k v0)))))))))))"

section \<open>\<^verbatim>\<open>nn.LayerNorm\<close> and \<^verbatim>\<open>nn.GELU\<close>\<close>

record LayerNorm =
  normalized_shape :: int
  ln_weight :: Parameter
  ln_bias :: Parameter
  eps :: real

definition LayerNorm_init :: "int \<Rightarrow> nat \<Rightarrow> py_error + (LayerNorm \<times> nat)" where
  "LayerNorm_init n a =
     (case new_parameter [n] a of
        Inl e \<Rightarrow> Inl e
      | Inr (w, a1) \<Rightarrow>
          (case new_parameter [n] a1 of
             Inl e \<Rightarrow> Inl e
           | Inr (b, a2) \<Rightarrow>
               Inr (\<lparr>normalized_shape = n, ln_weight = w, ln_bias = b, eps = 1 / 100000\<rparr>, a2)))"

text \<open>\<^verbatim>\<open>F.layer_norm\<close> over the last dimension, which must have the normalized size.\<close>

definition layer_norm ::
  "real tensor \<Rightarrow> nat \<Rightarrow> real tensor \<Rightarrow> real tensor \<Rightarrow> real \<Rightarrow> py_error + real tensor" where
  "layer_norm x n w b e =
     (if tshape x = [] \<or> last (tshape x) \<noteq> n \<or> tshape w \<noteq> [n] \<or> tshape b \<noteq> [n]
      then Inl RuntimeError
      else
        Inr \<lparr>tshape = tshape x,
             elems = (\<lambda>idx.
               let row = map (\<lambda>i. elems x (butlast idx @ [i])) [0..<n];
                   mean = sum_list row / real n;
                   var = sum_list (map (\<lambda>r. (r - mean)\<^sup>2) row) / real n
               in (elems x idx - mean) / sqrt (var + e) * elems w [last idx]
                  + elems b [last idx])\<rparr>)"

definition LayerNorm_forward :: "store \<Rightarrow> LayerNorm \<Rightarrow> real tensor \<Rightarrow> py_error + real tensor" where
  "LayerNorm_forward \<theta> l x =
     layer_norm x (nat (normalized_shape l)) (param_value \<theta> (ln_weight l))
       (param_value \<theta> (ln_bias l)) (eps l)"

text \<open>The error function, by its power series, and the two forms of the Gaussian error
  linear unit: the exact one and the \<open>tanh\<close> approximation. \<^verbatim>\<open>F.gelu\<close> takes the form's
  name as a string and refuses any other.\<close>

definition erf :: "real \<Rightarrow> real" where
  "erf x = 2 / sqrt pi * (\<Sum>n. (- 1) ^ n * x ^ (2 * n + 1) / (fact n * real (2 * n + 1)))"

definition gelu_exact :: "real \<Rightarrow> real" where
  "gelu_exact x = x * (1 + erf (x / sqrt 2)) / 2"

definition gelu_tanh :: "real \<Rightarrow> real" where
  "gelu_tanh x = x * (1 + tanh (sqrt (2 / pi) * (x + 44715 / 1000000 * x ^ 3))) / 2"

record GELU =
  approximate :: string

definition map_elems :: "('a \<Rightarrow> 'b) \<Rightarrow> 'a tensor \<Rightarrow> 'b tensor" where
  "map_elems f t = \<lparr>tshape = tshape t, elems = (\<lambda>idx. f (elems t idx))\<rparr>"

definition GELU_forward :: "GELU \<Rightarrow> real tensor \<Rightarrow> py_error + real tensor" where
  "GELU_forward g x =
     (if approximate g = ''none'' then Inr (map_elems gelu_exact x)
      else if approximate g = ''tanh'' then Inr (map_elems gelu_tanh x)
      else Inl RuntimeError)"

section \<open>\<^verbatim>\<open>MLP\<close> (lines 42--53)\<close>

record MLP =
  c_fc :: Linear
  gelu :: GELU
  mlp_c_proj :: Linear

definition MLP_init :: "GPTConfig \<Rightarrow> nat \<Rightarrow> py_error + (MLP \<times> nat)" where
  "MLP_init config a =
     (case Linear_init (n_embd config) (4 * n_embd config) True a of
        Inl e \<Rightarrow> Inl e
      | Inr (fc, a1) \<Rightarrow>
          (case Linear_init (4 * n_embd config) (n_embd config) True a1 of
             Inl e \<Rightarrow> Inl e
           | Inr (pr, a2) \<Rightarrow>
               Inr (\<lparr>c_fc = fc, gelu = \<lparr>approximate = ''none''\<rparr>, mlp_c_proj = pr\<rparr>, a2)))"

definition MLP_forward :: "MLP \<Rightarrow> store \<Rightarrow> real tensor \<Rightarrow> py_error + real tensor" where
  "MLP_forward m \<theta> x =
     and_then (Linear_forward \<theta> (c_fc m) x) (\<lambda>x1.
     and_then (GELU_forward (gelu m) x1) (\<lambda>x2.
     Linear_forward \<theta> (mlp_c_proj m) x2))"

section \<open>\<^verbatim>\<open>Block\<close> (lines 55--66)\<close>

record Block =
  ln_1 :: LayerNorm
  attn :: CausalSelfAttention
  ln_2 :: LayerNorm
  mlp :: MLP

definition Block_init :: "GPTConfig \<Rightarrow> nat \<Rightarrow> py_error + (Block \<times> nat)" where
  "Block_init config a =
     (case LayerNorm_init (n_embd config) a of
        Inl e \<Rightarrow> Inl e
      | Inr (l1, a1) \<Rightarrow>
          (case CausalSelfAttention_init config a1 of
             Inl e \<Rightarrow> Inl e
           | Inr (sa, a2) \<Rightarrow>
               (case LayerNorm_init (n_embd config) a2 of
                  Inl e \<Rightarrow> Inl e
                | Inr (l2, a3) \<Rightarrow>
                    (case MLP_init config a3 of
                       Inl e \<Rightarrow> Inl e
                     | Inr (ml, a4) \<Rightarrow>
                         Inr (\<lparr>ln_1 = l1, attn = sa, ln_2 = l2, mlp = ml\<rparr>, a4)))))"

definition Block_forward :: "Block \<Rightarrow> store \<Rightarrow> real tensor \<Rightarrow> py_error + real tensor" where
  "Block_forward m \<theta> x =
     and_then (LayerNorm_forward \<theta> (ln_1 m) x) (\<lambda>n1.
     and_then (CausalSelfAttention_forward (attn m) \<theta> n1) (\<lambda>y1.
     and_then (tensor_add x y1) (\<lambda>x1.
     and_then (LayerNorm_forward \<theta> (ln_2 m) x1) (\<lambda>n2.
     and_then (MLP_forward (mlp m) \<theta> n2) (\<lambda>y2.
     tensor_add x1 y2)))))"

section \<open>\<^verbatim>\<open>GPT\<close> (lines 77--88)\<close>

record Embedding =
  num_embeddings :: int
  embedding_dim :: int
  emb_weight :: Parameter

definition Embedding_init :: "int \<Rightarrow> int \<Rightarrow> nat \<Rightarrow> py_error + (Embedding \<times> nat)" where
  "Embedding_init n d a =
     (case new_parameter [n, d] a of
        Inl e \<Rightarrow> Inl e
      | Inr (w, a1) \<Rightarrow> Inr (\<lparr>num_embeddings = n, embedding_dim = d, emb_weight = w\<rparr>, a1))"

text \<open>The fields of the module dictionary \<^verbatim>\<open>transformer\<close> (\<^verbatim>\<open>wte\<close>, \<^verbatim>\<open>wpe\<close>,
  \<^verbatim>\<open>h\<close>, \<^verbatim>\<open>ln_f\<close>) are fields of the model's record.\<close>

record GPT =
  config :: GPTConfig
  wte :: Embedding
  wpe :: Embedding
  h :: "Block list"
  ln_f :: LayerNorm
  lm_head :: Linear

text \<open>Line 85, \<^verbatim>\<open>[Block(config) for _ in range(config.n_layer)]\<close>: the second argument
  is the number of iterations left.\<close>

fun Block_list_init :: "GPTConfig \<Rightarrow> nat \<Rightarrow> nat \<Rightarrow> py_error + (Block list \<times> nat)" where
  "Block_list_init cfg 0 a = Inr ([], a)"
| "Block_list_init cfg (Suc n) a =
     (case Block_init cfg a of
        Inl e \<Rightarrow> Inl e
      | Inr (b, a1) \<Rightarrow>
          (case Block_list_init cfg n a1 of
             Inl e \<Rightarrow> Inl e
           | Inr (bs, a2) \<Rightarrow> Inr (b # bs, a2)))"

definition GPT_init :: "GPTConfig \<Rightarrow> nat \<Rightarrow> py_error + (GPT \<times> nat)" where
  "GPT_init cfg a =
     (case Embedding_init (vocab_size cfg) (n_embd cfg) a of
        Inl e \<Rightarrow> Inl e
      | Inr (te, a1) \<Rightarrow>
          (case Embedding_init (block_size cfg) (n_embd cfg) a1 of
             Inl e \<Rightarrow> Inl e
           | Inr (pe, a2) \<Rightarrow>
               (case Block_list_init cfg (nat (n_layer cfg)) a2 of
                  Inl e \<Rightarrow> Inl e
                | Inr (bs, a3) \<Rightarrow>
                    (case LayerNorm_init (n_embd cfg) a3 of
                       Inl e \<Rightarrow> Inl e
                     | Inr (lf, a4) \<Rightarrow>
                         (case Linear_init (n_embd cfg) (vocab_size cfg) False a4 of
                            Inl e \<Rightarrow> Inl e
                          | Inr (lm, a5) \<Rightarrow>
                              Inr (\<lparr>config = cfg, wte = te, wpe = pe, h = bs, ln_f = lf,
                                    lm_head = lm\<rparr>, a5))))))"

text \<open>The class defines \<^verbatim>\<open>__init__\<close> and nothing else (the file ends at line 88).
  Evaluating the model on an input calls the \<^verbatim>\<open>forward\<close> it inherits from
  \<^verbatim>\<open>nn.Module\<close>, which raises \<^verbatim>\<open>NotImplementedError\<close> whatever the arguments.\<close>

definition Module_forward :: "py_error + 'b" where
  "Module_forward = Inl NotImplementedError"

definition GPT_forward :: "GPT \<Rightarrow> store \<Rightarrow> int tensor \<Rightarrow> py_error + real tensor" where
  "GPT_forward m \<theta> idx = Module_forward"

section \<open>The parameters of a module\<close>







section \<open>The specification's error conditions and the data of its examples\<close>



text \<open>The configuration of the specification's end-to-end example, a tensor of zeros
  (\<^verbatim>\<open>torch.zeros\<close>), a store that holds zero everywhere, and the modules built from the
  example configuration at address 0.\<close>

definition example_config :: GPTConfig where
  "example_config = \<lparr>block_size = 8, vocab_size = 10, n_layer = 2, n_head = 2, n_embd = 8\<rparr>"

definition zeros :: "nat list \<Rightarrow> 'a::zero tensor" where
  "zeros s = \<lparr>tshape = s, elems = (\<lambda>idx. 0)\<rparr>"

definition zero_store :: store where
  "zero_store = (\<lambda>a idx. 0)"

definition example_attention :: CausalSelfAttention where
  "example_attention = fst (projr (CausalSelfAttention_init example_config 0))"

definition default_attention :: CausalSelfAttention where
  "default_attention = fst (projr (CausalSelfAttention_init GPTConfig_default 0))"

text \<open>A hidden state of shape \<open>(1, 4, 8)\<close> that is zero at position 0 and one at the
  later positions: it agrees with \<open>zeros [1, 4, 8]\<close> at position 0 only.\<close>

definition later_ones :: "real tensor" where
  "later_ones = \<lparr>tshape = [1, 4, 8], elems = (\<lambda>idx. if idx ! 1 = 0 then 0 else 1)\<rparr>"

definition example_mlp :: MLP where
  "example_mlp = fst (projr (MLP_init example_config 0))"

definition example_block :: Block where
  "example_block = fst (projr (Block_init example_config 0))"

definition example_model :: GPT where
  "example_model = fst (projr (GPT_init example_config 0))"

section \<open>Construction\<close>

lemma Linear_init_ok:
  "0 \<le> n_in \<Longrightarrow> 0 \<le> n_out \<Longrightarrow>
     Linear_init n_in n_out True a =
       Inr (\<lparr>in_features = n_in, out_features = n_out,
             weight = \<lparr>addr = a, pshape = [nat n_out, nat n_in]\<rparr>,
             bias = Some \<lparr>addr = Suc a, pshape = [nat n_out]\<rparr>\<rparr>, Suc (Suc a))"
  by (simp add: Linear_init_def new_parameter_def)


lemma causal_mask_buffer_ok:
  "0 \<le> bs \<Longrightarrow>
     \<exists>b. causal_mask_buffer bs = Inr b \<and> tshape b = [1, 1, nat bs, nat bs]"
  by (simp add: causal_mask_buffer_def and_then_def torch_ones_def torch_tril_def view_def
      view_shape_def numel_def)

lemma causal_mask_buffer_neg:
  "bs < 0 \<Longrightarrow> causal_mask_buffer bs = Inl RuntimeError"
  by (simp add: causal_mask_buffer_def and_then_def torch_ones_def)

lemma Linear_init_Inr:
  "Linear_init n_in n_out use_bias a = Inr (l, a') \<longleftrightarrow>
     0 \<le> n_in \<and> 0 \<le> n_out \<and>
     l = \<lparr>in_features = n_in, out_features = n_out,
          weight = \<lparr>addr = a, pshape = [nat n_out, nat n_in]\<rparr>,
          bias = (if use_bias then Some \<lparr>addr = Suc a, pshape = [nat n_out]\<rparr> else None)\<rparr> \<and>
     a' = (if use_bias then a + 2 else a + 1)"
  by (auto simp: Linear_init_def new_parameter_def)

lemma Linear_init_Inl:
  "Linear_init n_in n_out use_bias a = Inl e \<longleftrightarrow> (n_in < 0 \<or> n_out < 0) \<and> e = RuntimeError"
  by (auto simp: Linear_init_def new_parameter_def)

lemma LayerNorm_init_Inr:
  "LayerNorm_init n a = Inr (l, a') \<longleftrightarrow>
     0 \<le> n \<and>
     l = \<lparr>normalized_shape = n, ln_weight = \<lparr>addr = a, pshape = [nat n]\<rparr>,
          ln_bias = \<lparr>addr = Suc a, pshape = [nat n]\<rparr>, eps = 1 / 100000\<rparr> \<and>
     a' = a + 2"
  by (auto simp: LayerNorm_init_def new_parameter_def)

lemma Embedding_init_Inr:
  "Embedding_init n d a = Inr (l, a') \<longleftrightarrow>
     0 \<le> n \<and> 0 \<le> d \<and>
     l = \<lparr>num_embeddings = n, embedding_dim = d,
          emb_weight = \<lparr>addr = a, pshape = [nat n, nat d]\<rparr>\<rparr> \<and>
     a' = a + 1"
  by (auto simp: Embedding_init_def new_parameter_def)

lemma causal_mask_buffer_Inr:
  "0 \<le> bs \<Longrightarrow> causal_mask_buffer bs = Inr (projr (causal_mask_buffer bs))"
  using causal_mask_buffer_ok [of bs] by auto

lemma CausalSelfAttention_init_Inr:
  "CausalSelfAttention_init cfg a = Inr (m, a') \<longleftrightarrow>
     n_head cfg \<noteq> 0 \<and> n_head cfg dvd n_embd cfg \<and> 0 \<le> n_embd cfg \<and> 0 \<le> block_size cfg \<and>
     m = \<lparr>c_attn = \<lparr>in_features = n_embd cfg, out_features = 3 * n_embd cfg,
                    weight = \<lparr>addr = a, pshape = [nat (3 * n_embd cfg), nat (n_embd cfg)]\<rparr>,
                    bias = Some \<lparr>addr = Suc a, pshape = [nat (3 * n_embd cfg)]\<rparr>\<rparr>,
          c_proj = \<lparr>in_features = n_embd cfg, out_features = n_embd cfg,
                    weight = \<lparr>addr = a + 2, pshape = [nat (n_embd cfg), nat (n_embd cfg)]\<rparr>,
                    bias = Some \<lparr>addr = a + 3, pshape = [nat (n_embd cfg)]\<rparr>\<rparr>,
          attn_n_head = n_head cfg, attn_n_embd = n_embd cfg,
          attn_bias = projr (causal_mask_buffer (block_size cfg))\<rparr> \<and>
     a' = a + 4"
proof (cases "n_head cfg = 0")
  case True
  then show ?thesis by (simp add: CausalSelfAttention_init_def py_mod_def)
next
  case nz: False
  show ?thesis
  proof (cases "0 \<le> n_embd cfg \<and> 0 \<le> block_size cfg")
    case True
    then show ?thesis
      using nz causal_mask_buffer_Inr [of "block_size cfg"]
      by (auto simp: CausalSelfAttention_init_def py_mod_def Linear_init_ok dvd_eq_mod_eq_0
          split: sum.splits)
  next
    case False
    then show ?thesis
      using nz causal_mask_buffer_neg [of "block_size cfg"]
      by (auto simp: CausalSelfAttention_init_def py_mod_def Linear_init_Inl Linear_init_Inr
          split: sum.splits prod.splits)
  qed
qed


lemma init_projr:
  "n_head cfg \<noteq> 0 \<Longrightarrow> n_head cfg dvd n_embd cfg \<Longrightarrow> 0 \<le> n_embd cfg \<Longrightarrow> 0 \<le> block_size cfg \<Longrightarrow>
     CausalSelfAttention_init cfg a = Inr (fst (projr (CausalSelfAttention_init cfg a)), a + 4)"
proof -
  assume "n_head cfg \<noteq> 0" "n_head cfg dvd n_embd cfg" "0 \<le> n_embd cfg" "0 \<le> block_size cfg"
  then obtain m where "CausalSelfAttention_init cfg a = Inr (m, a + 4)"
    by (simp add: CausalSelfAttention_init_Inr)
  then show ?thesis by simp
qed

lemma MLP_init_Inr:
  "MLP_init cfg a = Inr (m, a') \<longleftrightarrow>
     0 \<le> n_embd cfg \<and>
     m = \<lparr>c_fc = \<lparr>in_features = n_embd cfg, out_features = 4 * n_embd cfg,
                  weight = \<lparr>addr = a, pshape = [nat (4 * n_embd cfg), nat (n_embd cfg)]\<rparr>,
                  bias = Some \<lparr>addr = Suc a, pshape = [nat (4 * n_embd cfg)]\<rparr>\<rparr>,
          gelu = \<lparr>approximate = ''none''\<rparr>,
          mlp_c_proj = \<lparr>in_features = 4 * n_embd cfg, out_features = n_embd cfg,
                  weight = \<lparr>addr = a + 2, pshape = [nat (n_embd cfg), nat (4 * n_embd cfg)]\<rparr>,
                  bias = Some \<lparr>addr = a + 3, pshape = [nat (n_embd cfg)]\<rparr>\<rparr>\<rparr> \<and>
     a' = a + 4"
  by (auto simp: MLP_init_def Linear_init_def new_parameter_def)

lemma Block_init_Inr:
  "Block_init cfg a = Inr (b, a') \<longleftrightarrow>
     LayerNorm_init (n_embd cfg) a = Inr (ln_1 b, a + 2) \<and>
     CausalSelfAttention_init cfg (a + 2) = Inr (attn b, a + 6) \<and>
     LayerNorm_init (n_embd cfg) (a + 6) = Inr (ln_2 b, a + 8) \<and>
     MLP_init cfg (a + 8) = Inr (mlp b, a + 12) \<and> a' = a + 12"
  (is "?l \<longleftrightarrow> ?r")
proof
  assume ?l
  then obtain l1 a1 sa a2 l2 a3 ml where
    1: "LayerNorm_init (n_embd cfg) a = Inr (l1, a1)" and
    2: "CausalSelfAttention_init cfg a1 = Inr (sa, a2)" and
    3: "LayerNorm_init (n_embd cfg) a2 = Inr (l2, a3)" and
    4: "MLP_init cfg a3 = Inr (ml, a')" and
    b: "b = \<lparr>ln_1 = l1, attn = sa, ln_2 = l2, mlp = ml\<rparr>"
    by (auto simp: Block_init_def split: sum.splits prod.splits)
  have "a1 = a + 2" using 1 by (simp add: LayerNorm_init_Inr)
  moreover have "a2 = a1 + 4" using 2 by (simp add: CausalSelfAttention_init_Inr)
  moreover have "a3 = a2 + 2" using 3 by (simp add: LayerNorm_init_Inr)
  moreover have "a' = a3 + 4" using 4 by (simp add: MLP_init_Inr)
  ultimately show ?r using 1 2 3 4 b by (simp add: add.commute)
next
  assume ?r
  then show ?l by (simp add: Block_init_def)
qed



lemma Block_list_init_ok:
  assumes "n_head cfg \<noteq> 0" "n_head cfg dvd n_embd cfg" "0 \<le> n_embd cfg" "0 \<le> block_size cfg"
  shows "\<exists>bs. Block_list_init cfg n a = Inr (bs, a + 12 * n)"
proof (induction n arbitrary: a)
  case 0
  then show ?case by simp
next
  case (Suc n)
  have "\<exists>b. Block_init cfg a = Inr (b, a + 12)"
  proof -
    obtain sa where sa: "CausalSelfAttention_init cfg (a + 2) = Inr (sa, a + 6)"
      using assms by (auto simp: CausalSelfAttention_init_Inr)
    obtain l1 where l1: "LayerNorm_init (n_embd cfg) a = Inr (l1, a + 2)"
      using assms by (auto simp: LayerNorm_init_Inr)
    obtain l2 where l2: "LayerNorm_init (n_embd cfg) (a + 6) = Inr (l2, a + 8)"
      using assms by (auto simp: LayerNorm_init_Inr)
    obtain ml where ml: "MLP_init cfg (a + 8) = Inr (ml, a + 12)"
      using assms by (auto simp: MLP_init_Inr)
    show ?thesis using sa l1 l2 ml by (simp add: Block_init_def)
  qed
  then obtain b where b: "Block_init cfg a = Inr (b, a + 12)" by blast
  obtain bs where "Block_list_init cfg n (a + 12) = Inr (bs, a + 12 + 12 * n)"
    using Suc.IH by blast
  then show ?case using b by simp
qed


lemma GPT_init_ok:
  assumes "0 \<le> vocab_size cfg" "0 \<le> n_embd cfg" "0 \<le> block_size cfg"
    "n_head cfg \<noteq> 0" "n_head cfg dvd n_embd cfg"
  shows "\<exists>m. GPT_init cfg a = Inr (m, a + 5 + 12 * nat (n_layer cfg))"
proof -
  obtain bs where bs: "Block_list_init cfg (nat (n_layer cfg)) (a + 2)
      = Inr (bs, a + 2 + 12 * nat (n_layer cfg))"
    using Block_list_init_ok [OF assms(4,5,2,3)] by blast
  obtain te where te: "Embedding_init (vocab_size cfg) (n_embd cfg) a = Inr (te, a + 1)"
    using assms by (simp add: Embedding_init_Inr)
  obtain pe where pe: "Embedding_init (block_size cfg) (n_embd cfg) (a + 1) = Inr (pe, a + 2)"
    using assms by (simp add: Embedding_init_Inr)
  obtain lf where lf: "LayerNorm_init (n_embd cfg) (a + 2 + 12 * nat (n_layer cfg))
      = Inr (lf, a + 4 + 12 * nat (n_layer cfg))"
    using assms by (simp add: LayerNorm_init_Inr)
  obtain lm where lm: "Linear_init (n_embd cfg) (vocab_size cfg) False (a + 4 + 12 * nat (n_layer cfg))
      = Inr (lm, a + 5 + 12 * nat (n_layer cfg))"
    using assms by (simp add: Linear_init_Inr)
  show ?thesis using bs te pe lf lm by (simp add: GPT_init_def)
qed



section \<open>The attention forward operation\<close>

lemma split_count: "0 < s \<Longrightarrow> (4 * s - Suc 0) div s = (3::nat)"
  by (rule div_nat_eqI) auto

lemma upt_3: "[0..<3] = [0, 1, 2]"
  by (simp add: upt_rec)

lemma linear_shape:
  assumes "tshape w = [n_out, n_in]" "tshape x = s @ [n_in]"
    "case b of None \<Rightarrow> True | Some bt \<Rightarrow> tshape bt = [n_out]"
  shows "\<exists>y. linear x w b = Inr y \<and> tshape y = s @ [n_out]"
  using assms by (auto simp: linear_def split: option.splits)

lemma view_shape_nonneg:
  assumes "list_all (\<lambda>d. 0 \<le> d) sizes" "prod_list (map nat sizes) = n"
  shows "view_shape n sizes = Inr (map nat sizes)"
proof -
  have a: "\<not> list_ex (\<lambda>d. d < - 1) sizes" using assms(1)
    by (induction sizes) auto
  have b: "- 1 \<notin> set sizes" using assms(1)
    by (induction sizes) auto
  then have c: "count_list sizes (- 1) = 0"
    by (simp add: count_list_0_iff)
  show ?thesis using a b c assms(2) by (simp add: view_shape_def)
qed

lemma forward_unbound:
  assumes w: "pshape (weight (c_attn m)) = [3 * C, C]"
    and b: "case bias (c_attn m) of None \<Rightarrow> True | Some bp \<Rightarrow> pshape bp = [3 * C]"
    and e: "attn_n_embd m = int C" and C: "0 < C"
    and nh: "0 < attn_n_head m" and dv: "attn_n_head m dvd int C"
    and x: "tshape x = [B, T, C]"
  shows "CausalSelfAttention_forward m \<theta> x = Inl UnboundLocalError"
proof -
  obtain qkv where qkv: "Linear_forward \<theta> (c_attn m) x = Inr qkv" "tshape qkv = [B, T, 3 * C]"
    using linear_shape [of "param_value \<theta> (weight (c_attn m))" "3 * C" C x "[B, T]"
        "map_option (param_value \<theta>) (bias (c_attn m))"] w b x
    by (auto simp: Linear_forward_def param_value_def split: option.splits)
  have sp: "tensor_split qkv (int C) 2 =
      Inr [narrow qkv 2 0 C, narrow qkv 2 C C, narrow qkv 2 (2 * C) C]"
    using C qkv(2) by (simp add: tensor_split_def norm_dim_def and_then_def Let_def split_count upt_3)
  have hs: "py_floordiv (int C) (attn_n_head m) = Inr (int C div attn_n_head m)"
    using nh by (simp add: py_floordiv_def)
  have pr: "nat (attn_n_head m) * nat (int C div attn_n_head m) = C"
  proof -
    have "attn_n_head m * (int C div attn_n_head m) = int C" using dv by simp
    moreover have "0 \<le> int C div attn_n_head m" using nh by (simp add: pos_imp_zdiv_nonneg_iff)
    ultimately show ?thesis using nh
      by (metis nat_int nat_mult_distrib order_less_imp_le)
  qed
  have vs: "\<And>t :: real tensor. tshape t = [B, T, C] \<Longrightarrow>
      \<exists>t'. view t [int B, int T, attn_n_head m, int C div attn_n_head m] = Inr t'
        \<and> tshape t' = [B, T, nat (attn_n_head m), nat (int C div attn_n_head m)]"
  proof -
    fix t :: "real tensor" assume t: "tshape t = [B, T, C]"
    have "view_shape (numel t) [int B, int T, attn_n_head m, int C div attn_n_head m]
        = Inr (map nat [int B, int T, attn_n_head m, int C div attn_n_head m])"
      apply (rule view_shape_nonneg)
      using nh pr t by (simp_all add: pos_imp_zdiv_nonneg_iff numel_def)
    then show "\<exists>t'. view t [int B, int T, attn_n_head m, int C div attn_n_head m] = Inr t'
        \<and> tshape t' = [B, T, nat (attn_n_head m), nat (int C div attn_n_head m)]"
      by (simp add: view_def)
  qed
  have tr: "\<And>(t :: real tensor) a b c d. tshape t = [a, b, c, d] \<Longrightarrow> \<exists>t'. tensor_transpose t 1 2 = Inr t'"
    by (simp add: tensor_transpose_def norm_dim_def and_then_def)
  obtain k1 where k1: "view (narrow qkv 2 C C) [int B, int T, attn_n_head m, int C div attn_n_head m] = Inr k1"
    "tshape k1 = [B, T, nat (attn_n_head m), nat (int C div attn_n_head m)]"
    using vs [of "narrow qkv 2 C C"] qkv(2) by (auto simp: narrow_def)
  obtain q1 where q1: "view (narrow qkv 2 0 C) [int B, int T, attn_n_head m, int C div attn_n_head m] = Inr q1"
    "tshape q1 = [B, T, nat (attn_n_head m), nat (int C div attn_n_head m)]"
    using vs [of "narrow qkv 2 0 C"] qkv(2) by (auto simp: narrow_def)
  obtain k where k: "tensor_transpose k1 1 2 = Inr k" using tr k1(2) by blast
  obtain q where q: "tensor_transpose q1 1 2 = Inr q" using tr q1(2) by blast
  show ?thesis
    using x qkv(1) sp hs k1(1) q1(1) k q e
    by (simp add: CausalSelfAttention_forward_def and_then_def unpack3_def read_local_def)
qed

lemma constructed_forward_unbound:
  assumes "CausalSelfAttention_init cfg a = Inr (m, a')" "0 < n_head cfg" "0 < n_embd cfg"
    "tshape x = [B, T, nat (n_embd cfg)]"
  shows "CausalSelfAttention_forward m \<theta> x = Inl UnboundLocalError"
proof -
  have m: "n_head cfg dvd n_embd cfg" "attn_n_head m = n_head cfg" "attn_n_embd m = n_embd cfg"
    "pshape (weight (c_attn m)) = [nat (3 * n_embd cfg), nat (n_embd cfg)]"
    "bias (c_attn m) = Some \<lparr>addr = Suc a, pshape = [nat (3 * n_embd cfg)]\<rparr>"
    using assms(1) by (simp_all add: CausalSelfAttention_init_Inr)
  have e: "int (nat (n_embd cfg)) = n_embd cfg" "nat (3 * n_embd cfg) = 3 * nat (n_embd cfg)"
    using assms(3) by auto
  show ?thesis
    by (rule forward_unbound [where C = "nat (n_embd cfg)" and B = B and T = T])
       (use m e assms in simp_all)
qed

lemma layer_norm_shape:
  assumes "tshape x = s @ [n]" "tshape w = [n]" "tshape b = [n]"
  shows "\<exists>y. layer_norm x n w b e = Inr y \<and> tshape y = tshape x"
  using assms by (simp add: layer_norm_def)

lemma Block_forward_unbound:
  assumes "Block_init cfg a = Inr (b, a')" "0 < n_head cfg" "0 < n_embd cfg"
    "tshape x = [B, T, nat (n_embd cfg)]"
  shows "Block_forward b \<theta> x = Inl UnboundLocalError"
proof -
  have l: "LayerNorm_init (n_embd cfg) a = Inr (ln_1 b, a + 2)"
    and s: "CausalSelfAttention_init cfg (a + 2) = Inr (attn b, a + 6)"
    using assms(1) by (simp_all add: Block_init_Inr)
  obtain n1 where n1: "LayerNorm_forward \<theta> (ln_1 b) x = Inr n1" "tshape n1 = tshape x"
    using layer_norm_shape [of x "[B, T]" "nat (n_embd cfg)" "param_value \<theta> (ln_weight (ln_1 b))"
        "param_value \<theta> (ln_bias (ln_1 b))" "eps (ln_1 b)"] l assms(4)
    by (auto simp: LayerNorm_init_Inr LayerNorm_forward_def param_value_def)
  have "CausalSelfAttention_forward (attn b) \<theta> n1 = Inl UnboundLocalError"
    using constructed_forward_unbound [OF s assms(2,3)] n1(2) assms(4) by simp
  then show ?thesis using n1(1) by (simp add: Block_forward_def and_then_def)
qed

section \<open>The feed-forward operation\<close>

lemma linear_Inr:
  assumes "tshape w = [n_out, n_in]" "tshape x = s @ [n_in]"
    "case b of None \<Rightarrow> True | Some bt \<Rightarrow> tshape bt = [n_out]"
  shows "linear x w b =
     Inr \<lparr>tshape = s @ [n_out],
          elems = (\<lambda>idx.
            (\<Sum>i\<leftarrow>[0..<n_in]. elems x (butlast idx @ [i]) * elems w [last idx, i]) +
            (case b of None \<Rightarrow> 0 | Some bt \<Rightarrow> elems bt [last idx]))\<rparr>"
  using assms by (auto simp: linear_def split: option.splits)

lemma sum_list_upt_cong:
  "(\<And>i. i < n \<Longrightarrow> f i = g i) \<Longrightarrow> (\<Sum>i\<leftarrow>[0..<n]. f i) = (\<Sum>i\<leftarrow>[0..<n]. (g i :: real))"
  by (rule arg_cong [where f = sum_list]) simp

lemma linear_position:
  assumes w: "tshape w = [n_out, n_in]"
    and x: "tshape x = [B, T, n_in]" and x': "tshape x' = [B, T, n_in]"
    and b: "case b of None \<Rightarrow> True | Some bt \<Rightarrow> tshape bt = [n_out]"
    and y: "linear x w b = Inr y" and y': "linear x' w b = Inr y'"
    and eq: "\<forall>c<n_in. elems x' [p, t, c] = elems x [p, t, c]"
  shows "elems y' [p, t, c] = elems y [p, t, c]"
proof -
  have s: "(\<Sum>i\<leftarrow>[0..<n_in]. elems x' [p, t, i] * elems w [c, i])
      = (\<Sum>i\<leftarrow>[0..<n_in]. elems x [p, t, i] * elems w [c, i])"
    by (rule sum_list_upt_cong) (simp add: eq)
  show ?thesis
    using y y' linear_Inr [OF w, of x "[B, T]" b] linear_Inr [OF w, of x' "[B, T]" b] x x' b s
    by auto
qed

lemma MLP_forward_Inr:
  assumes i: "MLP_init cfg a = Inr (m, a')" and x: "tshape x = [B, T, nat (n_embd cfg)]"
  shows "\<exists>x1 y. Linear_forward \<theta> (c_fc m) x = Inr x1 \<and>
     tshape x1 = [B, T, 4 * nat (n_embd cfg)] \<and>
     GELU_forward (gelu m) x1 = Inr (map_elems gelu_exact x1) \<and>
     Linear_forward \<theta> (mlp_c_proj m) (map_elems gelu_exact x1) = Inr y \<and>
     MLP_forward m \<theta> x = Inr y \<and> tshape y = [B, T, nat (n_embd cfg)]"
proof -
  let ?C = "nat (n_embd cfg)"
  have n: "0 \<le> n_embd cfg" and f: "nat (4 * n_embd cfg) = 4 * ?C"
    using i by (auto simp: MLP_init_Inr)
  have fc: "pshape (weight (c_fc m)) = [4 * ?C, ?C]"
    "bias (c_fc m) = Some \<lparr>addr = Suc a, pshape = [4 * ?C]\<rparr>"
    and pr: "pshape (weight (mlp_c_proj m)) = [?C, 4 * ?C]"
    "bias (mlp_c_proj m) = Some \<lparr>addr = a + 3, pshape = [?C]\<rparr>"
    and g: "approximate (gelu m) = ''none''"
    using i f by (simp_all add: MLP_init_Inr)
  obtain x1 where x1: "Linear_forward \<theta> (c_fc m) x = Inr x1" "tshape x1 = [B, T, 4 * ?C]"
    using linear_shape [of "param_value \<theta> (weight (c_fc m))" "4 * ?C" ?C x "[B, T]"
        "map_option (param_value \<theta>) (bias (c_fc m))"] fc x
    by (auto simp: Linear_forward_def param_value_def)
  have x2: "GELU_forward (gelu m) x1 = Inr (map_elems gelu_exact x1)"
    using g by (simp add: GELU_forward_def)
  have s2: "tshape (map_elems gelu_exact x1) = [B, T, 4 * ?C]"
    using x1(2) by (simp add: map_elems_def)
  obtain y where y: "Linear_forward \<theta> (mlp_c_proj m) (map_elems gelu_exact x1) = Inr y"
    "tshape y = [B, T, ?C]"
    using linear_shape [of "param_value \<theta> (weight (mlp_c_proj m))" ?C "4 * ?C"
        "map_elems gelu_exact x1" "[B, T]" "map_option (param_value \<theta>) (bias (mlp_c_proj m))"]
      pr s2
    by (auto simp: Linear_forward_def param_value_def)
  have "MLP_forward m \<theta> x = Inr y"
    using x1(1) x2 y(1) by (simp add: MLP_forward_def and_then_def)
  then show ?thesis using x1 x2 y by blast
qed

lemma MLP_forward_position:
  assumes i: "MLP_init cfg a = Inr (m, a')"
    and x: "tshape x = [B, T, nat (n_embd cfg)]" and x': "tshape x' = [B, T, nat (n_embd cfg)]"
    and y: "MLP_forward m \<theta> x = Inr y" and y': "MLP_forward m \<theta> x' = Inr y'"
    and eq: "\<forall>c<nat (n_embd cfg). elems x' [p, t, c] = elems x [p, t, c]"
  shows "elems y' [p, t, c] = elems y [p, t, c]"
proof -
  let ?C = "nat (n_embd cfg)"
  have f: "nat (4 * n_embd cfg) = 4 * ?C"
    using i by (auto simp: MLP_init_Inr)
  have fc: "tshape (param_value \<theta> (weight (c_fc m))) = [4 * ?C, ?C]"
    "case map_option (param_value \<theta>) (bias (c_fc m)) of None \<Rightarrow> True
       | Some bt \<Rightarrow> tshape bt = [4 * ?C]"
    and pr: "tshape (param_value \<theta> (weight (mlp_c_proj m))) = [?C, 4 * ?C]"
    "case map_option (param_value \<theta>) (bias (mlp_c_proj m)) of None \<Rightarrow> True
       | Some bt \<Rightarrow> tshape bt = [?C]"
    using i f by (simp_all add: MLP_init_Inr param_value_def)
  obtain x1 z where a: "Linear_forward \<theta> (c_fc m) x = Inr x1" "tshape x1 = [B, T, 4 * ?C]"
    "Linear_forward \<theta> (mlp_c_proj m) (map_elems gelu_exact x1) = Inr z" "MLP_forward m \<theta> x = Inr z"
    using MLP_forward_Inr [OF i x, of \<theta>] by blast
  obtain x1' z' where a': "Linear_forward \<theta> (c_fc m) x' = Inr x1'" "tshape x1' = [B, T, 4 * ?C]"
    "Linear_forward \<theta> (mlp_c_proj m) (map_elems gelu_exact x1') = Inr z'" "MLP_forward m \<theta> x' = Inr z'"
    using MLP_forward_Inr [OF i x', of \<theta>] by blast
  have z: "z = y" "z' = y'" using a(4) a'(4) y y' by simp_all
  have 1: "\<forall>j<4 * ?C. elems x1' [p, t, j] = elems x1 [p, t, j]"
    using linear_position [OF fc(1) x x' fc(2) _ _ eq] a(1) a'(1)
    by (simp add: Linear_forward_def)
  have 2: "\<forall>j<4 * ?C. elems (map_elems gelu_exact x1') [p, t, j]
      = elems (map_elems gelu_exact x1) [p, t, j]"
    using 1 by (simp add: map_elems_def)
  have s: "tshape (map_elems gelu_exact x1) = [B, T, 4 * ?C]"
    "tshape (map_elems gelu_exact x1') = [B, T, 4 * ?C]"
    using a(2) a'(2) by (simp_all add: map_elems_def)
  show ?thesis
    using linear_position [OF pr(1) s pr(2) _ _ 2] a(3) a'(3) z
    by (simp add: Linear_forward_def)
qed

section \<open>Lines 33--36 of the attention forward operation\<close>

text \<open>
  What the statements after line 31 compute from queries, keys and values of shape
  \<open>(B, nh, T, hs)\<close>, for a module the constructor built and \<open>T\<close> within the maximum
  sequence length: the weights of lines 33--35 are the softmax of the scaled products of
  queries and keys over the positions up to the query's, zero beyond it, and each row
  sums to 1; the product of line 36 at a position depends on the query at that position
  and on the keys and values up to it. No evaluation of \<open>CausalSelfAttention_forward\<close>
  reaches these statements (\<open>constructed_forward_unbound\<close>).
\<close>

lemma bcast_index_2: "b < B \<Longrightarrow> g < nh \<Longrightarrow> bcast_index [B, nh] [b, g] = [b, g]"
  by (auto simp: bcast_index_def)

lemma bcast_index_mask:
  "i < T \<Longrightarrow> j < T \<Longrightarrow> bcast_index [1, 1, T, T] [b, g, i, j] = [0, 0, i, j]"
  by (auto simp: bcast_index_def)

lemma bcast_index_same4:
  "b < B \<Longrightarrow> g < nh \<Longrightarrow> i < T \<Longrightarrow> j < T \<Longrightarrow>
     bcast_index [B, nh, T, T] [b, g, i, j] = [b, g, i, j]"
  by (auto simp: bcast_index_def)

lemma broadcast_shapes_same2: "broadcast_shapes [B, nh] [B, nh] = Inr [B, nh]"
  by (simp add: broadcast_shapes_def and_then_def)

lemma broadcast_shapes_mask: "broadcast_shapes [B, nh, T, T] [1, 1, T, T] = Inr [B, nh, T, T]"
  by (simp add: broadcast_shapes_def and_then_def)

lemma transpose_last2:
  assumes "tshape k = [B, nh, T, hs]"
  shows "tensor_transpose k (- 2) (- 1) =
     Inr \<lparr>tshape = [B, nh, hs, T], elems = (\<lambda>idx. elems k (swap_at 2 3 idx))\<rparr>"
  using assms by (simp add: tensor_transpose_def norm_dim_def and_then_def swap_at_def)

lemma matmul_4:
  assumes "tshape x = [B, nh, n, l]" "tshape y = [B, nh, l, p]"
  shows "\<exists>z. matmul x y = Inr z \<and> tshape z = [B, nh, n, p] \<and>
     (\<forall>b<B. \<forall>g<nh. \<forall>i j.
        elems z [b, g, i, j] = (\<Sum>d\<leftarrow>[0..<l]. elems x [b, g, i, d] * elems y [b, g, d, j]))"
  using assms
  by (simp add: matmul_def Let_def broadcast_shapes_same2 and_then_def bcast_index_2)

lemma causal_mask_buffer_elems:
  assumes "0 \<le> bs" "i < nat bs" "j < nat bs"
  shows "tshape (projr (causal_mask_buffer bs)) = [1, 1, nat bs, nat bs] \<and>
     elems (projr (causal_mask_buffer bs)) [0, 0, i, j] = (if j \<le> i then 1 else 0)"
  using assms
  by (simp add: causal_mask_buffer_def and_then_def torch_ones_def torch_tril_def view_def
      view_shape_def numel_def)

lemma attention_weights_Inr:
  assumes mb: "tshape (attn_bias m) = [1, 1, n, n]"
    and q: "tshape q = [B, nh, T, hs]" and k: "tshape k = [B, nh, T, hs]"
    and hs: "0 < hs" and T: "T \<le> n"
  shows "\<exists>att. attention_weights m T q k = Inr att \<and> tshape att = [B, nh, T, T] \<and>
     (\<forall>b<B. \<forall>g<nh. \<forall>i<T. \<forall>j<T.
        elems att [b, g, i, j] =
          (if elems (attn_bias m) [0, 0, i, j] = 0 then 0
           else exp ((\<Sum>d\<leftarrow>[0..<hs]. elems q [b, g, i, d] * elems k [b, g, j, d])
                     * (1 / sqrt (real hs)))) /
          (\<Sum>l\<leftarrow>[0..<T].
             if elems (attn_bias m) [0, 0, i, l] = 0 then 0
             else exp ((\<Sum>d\<leftarrow>[0..<hs]. elems q [b, g, i, d] * elems k [b, g, l, d])
                       * (1 / sqrt (real hs)))))"
proof -
  define kt where "kt = \<lparr>tshape = [B, nh, hs, T], elems = (\<lambda>idx. elems k (swap_at 2 3 idx))\<rparr>"
  have kt: "tensor_transpose k (- 2) (- 1) = Inr kt"
    unfolding kt_def using k by (rule transpose_last2)
  have kts: "tshape kt = [B, nh, hs, T]" by (simp add: kt_def)
  have kte: "\<And>b g d j. elems kt [b, g, d, j] = elems k [b, g, j, d]"
    by (simp add: kt_def swap_at_def)
  obtain qk where qk: "matmul q kt = Inr qk" "tshape qk = [B, nh, T, T]"
    and qke: "\<forall>b<B. \<forall>g<nh. \<forall>i j.
        elems qk [b, g, i, j] = (\<Sum>d\<leftarrow>[0..<hs]. elems q [b, g, i, d] * elems kt [b, g, d, j])"
    using matmul_4 [OF q kts] by blast
  have c: "inv_sqrt_size (last (tshape k)) = Inr (1 / sqrt (real hs))"
    using hs k by (simp add: inv_sqrt_size_def)
  have sl: "slice_TT (attn_bias m) T = Inr \<lparr>tshape = [1, 1, T, T], elems = elems (attn_bias m)\<rparr>"
    using mb T by (simp add: slice_TT_def min_def)
  define E where "E = (\<lambda>idx.
      if elems (attn_bias m) (bcast_index [1, 1, T, T] idx) = 0 then NegInf
      else Fin (elems qk (bcast_index [B, nh, T, T] idx) * (1 / sqrt (real hs))))"
  have mf: "masked_fill (tensor_scale qk (1 / sqrt (real hs)))
      (eq_zero \<lparr>tshape = [1, 1, T, T], elems = elems (attn_bias m)\<rparr>) NegInf
      = Inr \<lparr>tshape = [B, nh, T, T], elems = E\<rparr>"
    using qk(2)
    by (simp add: masked_fill_def pointwise2_def tensor_scale_def eq_zero_def
        broadcast_shapes_mask [unfolded One_nat_def] and_then_def E_def cong: if_cong)
  have aw: "attention_weights m T q k = Inr (softmax_last \<lparr>tshape = [B, nh, T, T], elems = E\<rparr>)"
    using kt qk(1) c sl mf by (simp add: attention_weights_def and_then_def)
  have Ee: "\<And>b g i j. b < B \<Longrightarrow> g < nh \<Longrightarrow> i < T \<Longrightarrow> j < T \<Longrightarrow>
      exp_score (E [b, g, i, j]) =
        (if elems (attn_bias m) [0, 0, i, j] = 0 then 0
         else exp ((\<Sum>d\<leftarrow>[0..<hs]. elems q [b, g, i, d] * elems k [b, g, j, d])
                   * (1 / sqrt (real hs))))"
    using qke by (simp add: E_def bcast_index_mask [unfolded One_nat_def] bcast_index_mask
        bcast_index_same4 exp_score_def kte)
  have el: "\<And>b g i j. b < B \<Longrightarrow> g < nh \<Longrightarrow> i < T \<Longrightarrow> j < T \<Longrightarrow>
      elems (softmax_last \<lparr>tshape = [B, nh, T, T], elems = E\<rparr>) [b, g, i, j] =
        (if elems (attn_bias m) [0, 0, i, j] = 0 then 0
         else exp ((\<Sum>d\<leftarrow>[0..<hs]. elems q [b, g, i, d] * elems k [b, g, j, d])
                   * (1 / sqrt (real hs)))) /
        (\<Sum>l\<leftarrow>[0..<T].
           if elems (attn_bias m) [0, 0, i, l] = 0 then 0
           else exp ((\<Sum>d\<leftarrow>[0..<hs]. elems q [b, g, i, d] * elems k [b, g, l, d])
                     * (1 / sqrt (real hs))))"
  proof -
    fix b g i j assume r: "b < B" "g < nh" "i < T" "j < T"
    have s: "(\<Sum>l\<leftarrow>[0..<T]. exp_score (E [b, g, i, l])) =
        (\<Sum>l\<leftarrow>[0..<T].
           if elems (attn_bias m) [0, 0, i, l] = 0 then 0
           else exp ((\<Sum>d\<leftarrow>[0..<hs]. elems q [b, g, i, d] * elems k [b, g, l, d])
                     * (1 / sqrt (real hs))))"
      by (rule sum_list_upt_cong) (simp add: Ee r)
    show "elems (softmax_last \<lparr>tshape = [B, nh, T, T], elems = E\<rparr>) [b, g, i, j] =
        (if elems (attn_bias m) [0, 0, i, j] = 0 then 0
         else exp ((\<Sum>d\<leftarrow>[0..<hs]. elems q [b, g, i, d] * elems k [b, g, j, d])
                   * (1 / sqrt (real hs)))) /
        (\<Sum>l\<leftarrow>[0..<T].
           if elems (attn_bias m) [0, 0, i, l] = 0 then 0
           else exp ((\<Sum>d\<leftarrow>[0..<hs]. elems q [b, g, i, d] * elems k [b, g, l, d])
                     * (1 / sqrt (real hs))))"
      unfolding s [symmetric] using Ee [OF r] by (simp add: softmax_last_def)
  qed
  show ?thesis
    using aw el by (intro exI [of _ "softmax_last \<lparr>tshape = [B, nh, T, T], elems = E\<rparr>"])
      (simp add: softmax_last_def)
qed

lemma sum_list_div: "(\<Sum>x\<leftarrow>xs. f x / (c::real)) = (\<Sum>x\<leftarrow>xs. f x) / c"
  by (induction xs) (simp_all add: add_divide_distrib)

lemma sum_list_exp_nonneg: "0 \<le> (\<Sum>x\<leftarrow>xs. exp (f x :: real))"
  by (induction xs) simp_all

lemma sum_list_exp_pos: "xs \<noteq> [] \<Longrightarrow> 0 < (\<Sum>x\<leftarrow>xs. exp (f x :: real))"
  by (cases xs) (simp_all add: add_pos_nonneg sum_list_exp_nonneg)

lemma sum_list_causal:
  assumes "i < T"
  shows "(\<Sum>l\<leftarrow>[0..<T]. if i < l then 0 else (f l :: real)) = (\<Sum>l\<leftarrow>[0..<Suc i]. f l)"
proof -
  have "[0..<Suc i + (T - Suc i)] = [0..<Suc i] @ [Suc i..<Suc i + (T - Suc i)]"
    by (rule upt_add_eq_append) simp
  moreover have "Suc i + (T - Suc i) = T"
    using assms by simp
  ultimately have "[0..<T] = [0..<Suc i] @ [Suc i..<T]"
    by simp
  moreover have "(\<Sum>l\<leftarrow>[0..<Suc i]. if i < l then 0 else f l) = (\<Sum>l\<leftarrow>[0..<Suc i]. f l)"
    by (rule arg_cong [where f = sum_list]) simp
  moreover have "(\<Sum>l\<leftarrow>[Suc i..<T]. if i < l then 0 else f l) = (\<Sum>l\<leftarrow>[Suc i..<T]. 0)"
    by (rule arg_cong [where f = sum_list]) simp
  ultimately show ?thesis by simp
qed

lemma constructed_attention_weights:
  assumes init: "CausalSelfAttention_init cfg a = Inr (m, a')"
    and q: "tshape q = [B, nh, T, hs]" and k: "tshape k = [B, nh, T, hs]"
    and hs: "0 < hs" and T: "int T \<le> block_size cfg"
  shows "\<exists>att. attention_weights m T q k = Inr att \<and> tshape att = [B, nh, T, T] \<and>
     (\<forall>b<B. \<forall>g<nh. \<forall>i<T.
        (\<forall>j<T. i < j \<longrightarrow> elems att [b, g, i, j] = 0) \<and>
        (\<forall>j\<le>i. elems att [b, g, i, j] =
           exp ((\<Sum>d\<leftarrow>[0..<hs]. elems q [b, g, i, d] * elems k [b, g, j, d]) * (1 / sqrt (real hs))) /
           (\<Sum>l\<leftarrow>[0..<Suc i].
              exp ((\<Sum>d\<leftarrow>[0..<hs]. elems q [b, g, i, d] * elems k [b, g, l, d]) * (1 / sqrt (real hs))))) \<and>
        (\<Sum>j\<leftarrow>[0..<T]. elems att [b, g, i, j]) = 1)"
proof -
  let ?n = "nat (block_size cfg)"
  let ?S = "\<lambda>b g i j. (\<Sum>d\<leftarrow>[0..<hs]. elems q [b, g, i, d] * elems k [b, g, j, d]) * (1 / sqrt (real hs))"
  have bs: "0 \<le> block_size cfg" and mb: "attn_bias m = projr (causal_mask_buffer (block_size cfg))"
    using init by (simp_all add: CausalSelfAttention_init_Inr)
  have Tn: "T \<le> ?n" using T by simp
  have sh: "tshape (attn_bias m) = [1, 1, ?n, ?n]"
    using causal_mask_buffer_ok [OF bs] mb by auto
  have me: "\<And>i j. i < T \<Longrightarrow> j < T \<Longrightarrow> (elems (attn_bias m) [0, 0, i, j] = 0) = (i < j)"
    using causal_mask_buffer_elems [OF bs] Tn mb by auto
  obtain att where aw: "attention_weights m T q k = Inr att" "tshape att = [B, nh, T, T]"
    and el: "\<forall>b<B. \<forall>g<nh. \<forall>i<T. \<forall>j<T.
        elems att [b, g, i, j] =
          (if elems (attn_bias m) [0, 0, i, j] = 0 then 0 else exp (?S b g i j)) /
          (\<Sum>l\<leftarrow>[0..<T]. if elems (attn_bias m) [0, 0, i, l] = 0 then 0 else exp (?S b g i l))"
    using attention_weights_Inr [OF sh q k hs Tn] by blast
  have den: "\<And>b g i. i < T \<Longrightarrow>
      (\<Sum>l\<leftarrow>[0..<T]. if elems (attn_bias m) [0, 0, i, l] = 0 then 0 else exp (?S b g i l))
        = (\<Sum>l\<leftarrow>[0..<Suc i]. exp (?S b g i l))"
  proof -
    fix b g i assume i: "i < T"
    have "(\<Sum>l\<leftarrow>[0..<T]. if elems (attn_bias m) [0, 0, i, l] = 0 then 0 else exp (?S b g i l))
        = (\<Sum>l\<leftarrow>[0..<T]. if i < l then 0 else exp (?S b g i l))"
      by (rule sum_list_upt_cong) (simp add: me i)
    then show "(\<Sum>l\<leftarrow>[0..<T]. if elems (attn_bias m) [0, 0, i, l] = 0 then 0 else exp (?S b g i l))
        = (\<Sum>l\<leftarrow>[0..<Suc i]. exp (?S b g i l))"
      using sum_list_causal [OF i, of "\<lambda>l. exp (?S b g i l)"] by simp
  qed
  have el2: "\<And>b g i j. b < B \<Longrightarrow> g < nh \<Longrightarrow> i < T \<Longrightarrow> j < T \<Longrightarrow>
      elems att [b, g, i, j] =
        (if i < j then 0 else exp (?S b g i j)) / (\<Sum>l\<leftarrow>[0..<Suc i]. exp (?S b g i l))"
    using el den me by simp
  have row: "\<And>b g i. b < B \<Longrightarrow> g < nh \<Longrightarrow> i < T \<Longrightarrow> (\<Sum>j\<leftarrow>[0..<T]. elems att [b, g, i, j]) = 1"
  proof -
    fix b g i assume r: "b < B" "g < nh" "i < T"
    let ?D = "\<Sum>l\<leftarrow>[0..<Suc i]. exp (?S b g i l)"
    have D: "0 < ?D"
      using sum_list_exp_pos [of "[0..<Suc i]" "\<lambda>l. ?S b g i l"] by simp
    have "(\<Sum>j\<leftarrow>[0..<T]. elems att [b, g, i, j])
        = (\<Sum>j\<leftarrow>[0..<T]. (if i < j then 0 else exp (?S b g i j)) / ?D)"
      by (rule sum_list_upt_cong) (simp add: el2 r)
    also have "\<dots> = (\<Sum>j\<leftarrow>[0..<T]. if i < j then 0 else exp (?S b g i j)) / ?D"
      by (rule sum_list_div)
    also have "\<dots> = ?D / ?D"
      using sum_list_causal [OF r(3), of "\<lambda>l. exp (?S b g i l)"] by simp
    also have "\<dots> = 1" using D by simp
    finally show "(\<Sum>j\<leftarrow>[0..<T]. elems att [b, g, i, j]) = 1" .
  qed
  have "\<forall>b<B. \<forall>g<nh. \<forall>i<T.
        (\<forall>j<T. i < j \<longrightarrow> elems att [b, g, i, j] = 0) \<and>
        (\<forall>j\<le>i. elems att [b, g, i, j] = exp (?S b g i j) / (\<Sum>l\<leftarrow>[0..<Suc i]. exp (?S b g i l))) \<and>
        (\<Sum>j\<leftarrow>[0..<T]. elems att [b, g, i, j]) = 1"
    using el2 row by auto
  then show ?thesis using aw by blast
qed

lemma attention_causal_core:
  assumes init: "CausalSelfAttention_init cfg a = Inr (m, a')"
    and q: "tshape q = [B, nh, T, hs]" and k: "tshape k = [B, nh, T, hs]"
    and v: "tshape v = [B, nh, T, hs]"
    and q': "tshape q' = [B, nh, T, hs]" and k': "tshape k' = [B, nh, T, hs]"
    and v': "tshape v' = [B, nh, T, hs]"
    and hs: "0 < hs" and T: "int T \<le> block_size cfg"
    and r: "b < B" "g < nh" "i < T"
    and eq_q: "\<forall>d<hs. elems q' [b, g, i, d] = elems q [b, g, i, d]"
    and eq_k: "\<forall>j\<le>i. \<forall>d<hs. elems k' [b, g, j, d] = elems k [b, g, j, d]"
    and eq_v: "\<forall>j\<le>i. \<forall>d. elems v' [b, g, j, d] = elems v [b, g, j, d]"
    and att: "attention_weights m T q k = Inr att" and y: "matmul att v = Inr y"
    and att': "attention_weights m T q' k' = Inr att'" and y': "matmul att' v' = Inr y'"
  shows "elems y' [b, g, i, d] = elems y [b, g, i, d]"
proof -
  let ?S = "\<lambda>q k j. (\<Sum>d\<leftarrow>[0..<hs]. elems q [b, g, i, d] * elems k [b, g, j, d]) * (1 / sqrt (real hs))"
  have S: "\<And>j. j \<le> i \<Longrightarrow> ?S q' k' j = ?S q k j"
  proof -
    fix j assume "j \<le> i"
    then have "(\<Sum>d\<leftarrow>[0..<hs]. elems q' [b, g, i, d] * elems k' [b, g, j, d])
        = (\<Sum>d\<leftarrow>[0..<hs]. elems q [b, g, i, d] * elems k [b, g, j, d])"
      using eq_q eq_k by (intro sum_list_upt_cong) simp
    then show "?S q' k' j = ?S q k j" by simp
  qed
  have D: "(\<Sum>l\<leftarrow>[0..<Suc i]. exp (?S q' k' l)) = (\<Sum>l\<leftarrow>[0..<Suc i]. exp (?S q k l))"
    by (rule sum_list_upt_cong, rule arg_cong [where f = exp], rule S) simp
  have a: "tshape att = [B, nh, T, T]"
    "\<And>j. j < T \<Longrightarrow> i < j \<Longrightarrow> elems att [b, g, i, j] = 0"
    "\<And>j. j \<le> i \<Longrightarrow> elems att [b, g, i, j] = exp (?S q k j) / (\<Sum>l\<leftarrow>[0..<Suc i]. exp (?S q k l))"
    using constructed_attention_weights [OF init q k hs T] att r by auto
  have a': "tshape att' = [B, nh, T, T]"
    "\<And>j. j < T \<Longrightarrow> i < j \<Longrightarrow> elems att' [b, g, i, j] = 0"
    "\<And>j. j \<le> i \<Longrightarrow> elems att' [b, g, i, j] = exp (?S q' k' j) / (\<Sum>l\<leftarrow>[0..<Suc i]. exp (?S q' k' l))"
    using constructed_attention_weights [OF init q' k' hs T] att' r by auto
  have ye: "elems y [b, g, i, d] = (\<Sum>j\<leftarrow>[0..<T]. elems att [b, g, i, j] * elems v [b, g, j, d])"
    using matmul_4 [OF a(1) v] y r by auto
  have ye': "elems y' [b, g, i, d] = (\<Sum>j\<leftarrow>[0..<T]. elems att' [b, g, i, j] * elems v' [b, g, j, d])"
    using matmul_4 [OF a'(1) v'] y' r by auto
  have "(\<Sum>j\<leftarrow>[0..<T]. elems att' [b, g, i, j] * elems v' [b, g, j, d])
      = (\<Sum>j\<leftarrow>[0..<T]. elems att [b, g, i, j] * elems v [b, g, j, d])"
  proof (rule sum_list_upt_cong)
    fix j assume j: "j < T"
    show "elems att' [b, g, i, j] * elems v' [b, g, j, d] = elems att [b, g, i, j] * elems v [b, g, j, d]"
    proof (cases "i < j")
      case True
      then show ?thesis using a(2) a'(2) j by simp
    next
      case False
      then have le: "j \<le> i" by simp
      have "elems att' [b, g, i, j] = elems att [b, g, i, j]"
        using a(3) [OF le] a'(3) [OF le] S [OF le] D by (simp only:)
      moreover have "elems v' [b, g, j, d] = elems v [b, g, j, d]"
        using eq_v le by simp
      ultimately show ?thesis by simp
    qed
  qed
  then show ?thesis using ye ye' by simp
qed

section \<open>The claims\<close>

subsection \<open>C5: construction of the attention module\<close>





subsection \<open>C2 and C1: the attention forward operation as written\<close>

text \<open>
  C2: as literally written, the value tensor of the attention forward operation is
  used without ever being bound from the three-way split (line 28 binds the third chunk
  to \<^verbatim>\<open>c\<close>, line 31 reads \<^verbatim>\<open>v\<close>), so the evaluation fails with an unbound-variable
  error before producing any output. This holds for every module built from a
  configuration with a positive head count and embedding width and every input of shape
  \<open>(B, T, C)\<close> whose \<open>C\<close> is the embedding width, whatever \<open>B\<close> and \<open>T\<close> are and
  whatever the parameters hold.
\<close>

theorem C2_forward_unbound_variable:
  assumes "CausalSelfAttention_init cfg a = Inr (m, a')"
    and "0 < n_head cfg" and "0 < n_embd cfg"
    and "tshape x = [B, T, nat (n_embd cfg)]"
  shows "CausalSelfAttention_forward m \<theta> x = Inl UnboundLocalError"
  using assms by (rule constructed_forward_unbound)

theorem C2_witness:
  "CausalSelfAttention_init GPTConfig_default 0 = Inr (default_attention, 4) \<and>
   0 < n_head GPTConfig_default \<and> 0 < n_embd GPTConfig_default \<and>
   tshape (zeros [2, 300, 384] :: real tensor) = [2, 300, nat (n_embd GPTConfig_default)] \<and>
   CausalSelfAttention_forward default_attention zero_store (zeros [2, 300, 384])
     = Inl UnboundLocalError"
proof -
  have i: "CausalSelfAttention_init GPTConfig_default 0 = Inr (default_attention, 4)"
    using init_projr [of GPTConfig_default 0] by (simp add: GPTConfig_default_def default_attention_def)
  have p: "0 < n_head GPTConfig_default" "0 < n_embd GPTConfig_default"
    by (simp_all add: GPTConfig_default_def)
  have s: "tshape (zeros [2, 300, 384] :: real tensor) = [2, 300, nat (n_embd GPTConfig_default)]"
    by (simp add: zeros_def GPTConfig_default_def)
  show ?thesis
    using i p s C2_forward_unbound_variable [OF i p s, of zero_store] by simp
qed

text \<open>
  C1 says that the operation returns a tensor of shape \<open>(B, T, C)\<close>. At the input of
  the specification's example (a hidden state of shape \<open>(1, 4, 8)\<close> for the module of
  the example configuration) the program raises \<^verbatim>\<open>UnboundLocalError\<close> instead.
\<close>

theorem C1_forward_raises:
  "CausalSelfAttention_init example_config 0 = Inr (example_attention, 4) \<and>
   CausalSelfAttention_forward example_attention zero_store (zeros [1, 4, 8])
     = Inl UnboundLocalError"
proof -
  have i: "CausalSelfAttention_init example_config 0 = Inr (example_attention, 4)"
    using init_projr [of example_config 0] by (simp add: example_config_def example_attention_def)
  show ?thesis
    using i constructed_forward_unbound [OF i, of "zeros [1, 4, 8]" 1 4 zero_store]
    by (simp add: example_config_def zeros_def)
qed

subsection \<open>C7: the transformer block as written\<close>

text \<open>
  C7 says that the block computes \<open>x + Attention(Normalize\<^sub>1(x))\<close>, then adds the
  feed-forward of the second normalization, and returns a tensor of the input's shape.
  Lines 64--65 are written that way, but the attention call of line 64 raises (the
  unbound \<^verbatim>\<open>v\<close> of line 31), so the block returns nothing: at the input of the
  specification's example the result is \<^verbatim>\<open>UnboundLocalError\<close>.
\<close>

theorem C7_block_raises:
  "Block_init example_config 0 = Inr (example_block, 12) \<and>
   Block_forward example_block zero_store (zeros [1, 4, 8]) = Inl UnboundLocalError"
proof -
  obtain b where "Block_init example_config 0 = Inr (b, 0 + 12 * 1)"
    using Block_list_init_ok [of example_config 1 0]
    by (auto simp: example_config_def split: sum.splits)
  then have i: "Block_init example_config 0 = Inr (example_block, 12)"
    by (simp add: example_block_def)
  show ?thesis
    using i Block_forward_unbound [OF i, of "zeros [1, 4, 8]" 1 4 zero_store]
    by (simp add: example_config_def zeros_def)
qed

subsection \<open>C9: construction of the model\<close>



subsection \<open>C3 and C10: evaluating the model\<close>

text \<open>
  C3, as stated: the model's forward evaluation of an index batch of shape \<open>(B, T)\<close>
  sums token and position embeddings, applies the blocks, the final normalization and
  the output projection, and produces logits of shape \<open>(B, T, vocabulary size)\<close>.

  The class defines its constructor only. At the input of the specification's example (a
  batch of shape \<open>(1, 4)\<close> of the index 0, for the model of the example configuration)
  the evaluation raises \<^verbatim>\<open>NotImplementedError\<close> and there are no logits.
\<close>

theorem C3_counterexample:
  "GPT_init example_config 0 = Inr (example_model, 29) \<and>
   tshape (zeros [1, 4] :: int tensor) = [1, 4] \<and>
   GPT_forward example_model zero_store (zeros [1, 4]) = Inl NotImplementedError"
proof -
  obtain m where "GPT_init example_config 0 = Inr (m, 0 + 5 + 12 * nat (n_layer example_config))"
    using GPT_init_ok [of example_config 0] by (auto simp: example_config_def)
  then have "GPT_init example_config 0 = Inr (example_model, 29)"
    by (simp add: example_model_def example_config_def)
  then show ?thesis
    by (simp add: GPT_forward_def Module_forward_def zeros_def)
qed

text \<open>
  C3, amended: the top-level model has no forward operation of its own; evaluating it on
  any index batch, with any parameters, raises the base module's
  \<^verbatim>\<open>NotImplementedError\<close>, and no embedding is looked up, no block, normalization or
  projection applied, and no logits produced.
\<close>

theorem C3_forward_not_implemented:
  "GPT_forward m \<theta> idx = Inl NotImplementedError"
  by (simp add: GPT_forward_def Module_forward_def)



subsection \<open>C8: the feed-forward module\<close>

text \<open>
  C8: the feed-forward module expands the embedding width by a factor of 4 with a linear
  projection, applies the exact Gaussian error linear unit (\<^verbatim>\<open>approximate="none"\<close>),
  projects back to the embedding width with a second linear layer, and for every input
  of shape \<open>(B, T, C)\<close> returns an output of the same shape; it does not mix positions:
  the output at a position \<open>(p, t)\<close> is the same for any two inputs that agree at
  \<open>(p, t)\<close>. This holds for every module the constructor builds, whatever the
  parameters hold.
\<close>

theorem C8_mlp_forward:
  assumes "MLP_init cfg a = Inr (m, a')" and "tshape x = [B, T, nat (n_embd cfg)]"
  shows "in_features (c_fc m) = n_embd cfg \<and> out_features (c_fc m) = 4 * n_embd cfg \<and>
    approximate (gelu m) = ''none'' \<and>
    in_features (mlp_c_proj m) = 4 * n_embd cfg \<and> out_features (mlp_c_proj m) = n_embd cfg \<and>
    (\<exists>x1 y.
       Linear_forward \<theta> (c_fc m) x = Inr x1 \<and> tshape x1 = [B, T, 4 * nat (n_embd cfg)] \<and>
       Linear_forward \<theta> (mlp_c_proj m) (map_elems gelu_exact x1) = Inr y \<and>
       MLP_forward m \<theta> x = Inr y \<and> tshape y = tshape x \<and>
       (\<forall>x' y' p t.
          tshape x' = tshape x \<and>
          (\<forall>c<nat (n_embd cfg). elems x' [p, t, c] = elems x [p, t, c]) \<and>
          MLP_forward m \<theta> x' = Inr y' \<longrightarrow>
          (\<forall>c. elems y' [p, t, c] = elems y [p, t, c])))"
proof -
  obtain x1 y where f:
    "Linear_forward \<theta> (c_fc m) x = Inr x1" "tshape x1 = [B, T, 4 * nat (n_embd cfg)]"
    "Linear_forward \<theta> (mlp_c_proj m) (map_elems gelu_exact x1) = Inr y"
    "MLP_forward m \<theta> x = Inr y" "tshape y = [B, T, nat (n_embd cfg)]"
    using MLP_forward_Inr [OF assms, of \<theta>] by blast
  have p: "\<forall>x' y' p t.
      tshape x' = tshape x \<and>
      (\<forall>c<nat (n_embd cfg). elems x' [p, t, c] = elems x [p, t, c]) \<and>
      MLP_forward m \<theta> x' = Inr y' \<longrightarrow>
      (\<forall>c. elems y' [p, t, c] = elems y [p, t, c])"
    using MLP_forward_position [OF assms(1) assms(2) _ f(4)] assms(2) by auto
  have c: "in_features (c_fc m) = n_embd cfg" "out_features (c_fc m) = 4 * n_embd cfg"
    "approximate (gelu m) = ''none''"
    "in_features (mlp_c_proj m) = 4 * n_embd cfg" "out_features (mlp_c_proj m) = n_embd cfg"
    using assms(1) by (simp_all add: MLP_init_Inr)
  have s: "tshape y = tshape x"
    using f(5) assms(2) by simp
  show ?thesis
    by (intro conjI exI [of _ x1] exI [of _ y]) (rule c f(1) f(2) f(3) f(4) s p)+
qed

theorem C8_witness:
  "MLP_init example_config 0 = Inr (example_mlp, 4) \<and>
   tshape (zeros [1, 4, 8] :: real tensor) = [1, 4, nat (n_embd example_config)] \<and>
   out_features (c_fc example_mlp) = 32 \<and>
   (\<exists>y y'. MLP_forward example_mlp zero_store (zeros [1, 4, 8]) = Inr y \<and>
      tshape y = [1, 4, 8] \<and>
      MLP_forward example_mlp zero_store later_ones = Inr y' \<and>
      elems y' [0, 0, 5] = elems y [0, 0, 5])"
proof -
  obtain m where "MLP_init example_config 0 = Inr (m, 0 + 4)"
    by (auto simp: MLP_init_Inr example_config_def)
  then have i: "MLP_init example_config 0 = Inr (example_mlp, 4)"
    by (simp add: example_mlp_def)
  have s: "tshape (zeros [1, 4, 8] :: real tensor) = [1, 4, nat (n_embd example_config)]"
    and s': "tshape later_ones = [1, 4, nat (n_embd example_config)]"
    by (simp_all add: zeros_def later_ones_def example_config_def)
  note t = C8_mlp_forward [OF i s, of zero_store]
  note t' = C8_mlp_forward [OF i s', of zero_store]
  have o: "out_features (c_fc example_mlp) = 32"
    using t by (simp add: example_config_def)
  obtain y where y: "MLP_forward example_mlp zero_store (zeros [1, 4, 8]) = Inr y"
    "tshape y = tshape (zeros [1, 4, 8] :: real tensor)"
    and mix: "\<forall>x' y' p t.
      tshape x' = tshape (zeros [1, 4, 8] :: real tensor) \<and>
      (\<forall>c<nat (n_embd example_config).
         elems x' [p, t, c] = elems (zeros [1, 4, 8] :: real tensor) [p, t, c]) \<and>
      MLP_forward example_mlp zero_store x' = Inr y' \<longrightarrow>
      (\<forall>c. elems y' [p, t, c] = elems y [p, t, c])"
    using t by blast
  obtain y' where y': "MLP_forward example_mlp zero_store later_ones = Inr y'"
    using t' by blast
  have a: "\<forall>c<nat (n_embd example_config).
      elems later_ones [0, 0, c] = elems (zeros [1, 4, 8] :: real tensor) [0, 0, c]"
    by (simp add: later_ones_def zeros_def)
  have "elems y' [0, 0, 5] = elems y [0, 0, 5]"
    using mix [rule_format, of later_ones 0 0 y' 5] a y' s s' by simp
  then show ?thesis
    using i s o y y' by (auto simp: zeros_def)
qed

subsection \<open>C4 and C6: what the attention forward operation computes\<close>

text \<open>
  C4 says that the output of the attention forward operation at position \<open>i\<close> depends
  on the input at the positions up to \<open>i\<close> only. The operation has no output: for the
  two inputs \<open>zeros [1, 4, 8]\<close> and \<open>later_ones\<close>, which agree at position 0 and differ
  at every later position, the program raises \<^verbatim>\<open>UnboundLocalError\<close> (the unbound
  \<^verbatim>\<open>v\<close> of line 31) and returns no tensor whose position 0 could be compared. (The
  statements of lines 33--36 are causal in the queries, keys and values they are given,
  \<open>attention_causal_core\<close>; they are never given any.)
\<close>

theorem C4_forward_raises_on_both:
  "CausalSelfAttention_forward example_attention zero_store (zeros [1, 4, 8])
     = Inl UnboundLocalError \<and>
   CausalSelfAttention_forward example_attention zero_store later_ones
     = Inl UnboundLocalError \<and>
   elems later_ones [0, 0, 0] = elems (zeros [1, 4, 8] :: real tensor) [0, 0, 0] \<and>
   elems later_ones [0, 1, 0] \<noteq> elems (zeros [1, 4, 8] :: real tensor) [0, 1, 0]"
proof -
  have i: "CausalSelfAttention_init example_config 0 = Inr (example_attention, 4)"
    using init_projr [of example_config 0] by (simp add: example_config_def example_attention_def)
  show ?thesis
    using constructed_forward_unbound [OF i, of "zeros [1, 4, 8]" 1 4 zero_store]
      constructed_forward_unbound [OF i, of later_ones 1 4 zero_store]
    by (simp add: example_config_def zeros_def later_ones_def)
qed

text \<open>
  C6 says that in the attention forward operation the raw scores are the scaled products
  of queries and keys, the pairs \<open>j > i\<close> are set to \<open>-inf\<close>, and after the softmax each
  row sums to 1 with zero weight beyond the causal horizon. Lines 33--35 are written
  that way (\<open>attention_weights\<close>, \<open>constructed_attention_weights\<close>), but no evaluation
  reaches them: for the module of the
  default configuration and a hidden state of shape \<open>(1, 256, 384)\<close> the read of
  \<^verbatim>\<open>v\<close> at line 31 raises first, and no score, mask or softmax is computed.
\<close>

theorem C6_forward_raises_before_scores:
  "CausalSelfAttention_init GPTConfig_default 0 = Inr (default_attention, 4) \<and>
   CausalSelfAttention_forward default_attention zero_store (zeros [1, 256, 384])
     = Inl UnboundLocalError"
proof -
  have i: "CausalSelfAttention_init GPTConfig_default 0 = Inr (default_attention, 4)"
    using init_projr [of GPTConfig_default 0]
    by (simp add: GPTConfig_default_def default_attention_def)
  show ?thesis
    using i constructed_forward_unbound [OF i, of "zeros [1, 256, 384]" 1 256 zero_store]
    by (simp add: GPTConfig_default_def zeros_def)
qed

end
